theory Spec2Isabelle
  imports Complex_Main
begin

section \<open>Data model of the swap initiation flow\<close>

text \<open>
  The development embeds \<^verbatim>\<open>initSwap\<close> (second module of
  \<^verbatim>\<open>src/account/importAccounts.js\<close>, lines 131--341).  Values of the
  arbitrary-precision class \<^verbatim>\<open>BigNumber\<close> are rationals; opaque byte strings,
  addresses, identifiers and hex payloads are strings.
\<close>

type_synonym BigNumber = rat

record currency =
  cur_id :: string
  cur_type :: string
  cur_family :: string

record account_unit =
  magnitude :: nat

record account =
  freshAddress :: string
  freshAddressPath :: string
  derivationMode :: string

record exchange =
  fromParentAccount :: "account option"
  fromAccount :: account
  toParentAccount :: "account option"
  toAccount :: account

record exchangeRate =
  provider :: string
  rateId :: string

record transaction =
  amount :: BigNumber
  recipient :: string

text \<open>The single element of the request body posted to \<^verbatim>\<open>/swap\<close> (lines 198--209).\<close>

record swap_request =
  rq_provider :: string
  rq_amountFrom :: BigNumber
  rq_from :: string
  rq_to :: string
  rq_rateId :: string
  rq_address :: string
  rq_refundAddress :: string
  rq_deviceTransactionId :: string

text \<open>One entry of \<^verbatim>\<open>res.data\<close>, with the fields the flow reads.\<close>

record swap_result =
  swapId :: string
  sr_provider :: string
  payinAddress :: string
  binaryPayload :: string
  sr_signature :: string

text \<open>
  The resolved value \<^verbatim>\<open>res\<close> of the network call: it may be falsy (\<open>None\<close> at the
  outer level, see \<open>network\<close> below) and its \<^verbatim>\<open>data\<close> field may be missing.
\<close>

record response =
  data :: "swap_result list option"

record provider_info =
  nameAndPubkey :: string
  pi_signature :: string

record swap_config =
  config :: string
  sc_signature :: string

text \<open>
  Values that can be thrown: the repository's \<^verbatim>\<open>SwapGenericAPIError\<close>, a plain
  \<^verbatim>\<open>Error\<close> with its message, the error raised by \<^verbatim>\<open>invariant\<close> with its
  message, the \<^verbatim>\<open>TypeError\<close> of destructuring \<^verbatim>\<open>undefined\<close>, and any
  value thrown or rejected by a collaborator (device, bridge, lookup tables).
\<close>

datatype err =
    SwapGenericAPIError
  | JsError string
  | InvariantViolation string
  | TypeError
  | Rejected string

record tx_errors =
  err_recipient :: "err option"
  err_amount :: "err option"

record tx_status =
  errors :: tx_errors
  estimatedFees :: BigNumber

datatype event =
    InitSwapRequested
  | InitSwapResult transaction string
  | InitSwapError err

text \<open>The methods of \<^verbatim>\<open>Swap\<close> (the device session), with their arguments.\<close>

datatype command =
    StartNewTransaction
  | SetPartnerKey string
  | CheckPartner string
  | ProcessTransaction string BigNumber
  | CheckTransactionSignature string
  | CheckPayoutAddress string string string
  | CheckRefundAddress string string string
  | SignCoinTransaction

datatype bridge_call =
    UpdateTransaction transaction string
  | PrepareTransaction account transaction
  | GetTransactionStatus account transaction

text \<open>
  Everything the flow does to the outside world, in the order it does it: device
  commands, the network request, bridge calls, the calls \<^verbatim>\<open>o.next\<close> and
  \<^verbatim>\<open>o.complete\<close> on the observer, and the moment the subscriber runs the teardown
  function returned at lines 334--336.
\<close>

datatype action =
    Device command
  | Network swap_request
  | Bridge bridge_call
  | Next event
  | Complete
  | Unsubscribe

text \<open>
  The awaited calls of \<^verbatim>\<open>confirmSwap\<close>.  JavaScript runs the function without
  interruption between two \<^verbatim>\<open>await\<close>s, so the teardown can only run while one of
  these calls is in flight.
\<close>

datatype point =
    AtStartNewTransaction
  | AtNetwork
  | AtPrepareTransaction
  | AtGetTransactionStatus
  | AtSetPartnerKey
  | AtCheckPartner
  | AtProcessTransaction
  | AtCheckTransactionSignature
  | AtPayoutAddressParameters
  | AtCheckPayoutAddress
  | AtRefundAddressParameters
  | AtCheckRefundAddress
  | AtSignCoinTransaction

text \<open>The closure state of one subscription: the flag of line 169 and the actions so far.\<close>

record state =
  unsubscribed :: bool
  trace :: "action list"

text \<open>
  The collaborators that are imported from other modules, as parameters: each call that
  can throw or reject returns \<open>Inl\<close> of the thrown value.  \<open>cancelAt\<close> is the awaited
  call during which the subscriber unsubscribes, if it does.
\<close>

record env =
  MOCK :: bool
  mockInitSwap :: "exchange \<Rightarrow> exchangeRate \<Rightarrow> string \<Rightarrow> state"
  getAccountCurrency :: "account \<Rightarrow> currency"
  getAccountUnit :: "account \<Rightarrow> account_unit"
  getMainAccount :: "account \<Rightarrow> account option \<Rightarrow> account"
  swap :: "command \<Rightarrow> err + string"
  network :: "swap_request \<Rightarrow> err + response option"
  getProviderNameAndSignature :: "string \<Rightarrow> err + provider_info"
  updateTransaction :: "transaction \<Rightarrow> string \<Rightarrow> transaction"
  getAbandonSeedAddress :: "string \<Rightarrow> err + string"
  prepareTransaction :: "account \<Rightarrow> transaction \<Rightarrow> err + transaction"
  getTransactionStatus :: "account \<Rightarrow> transaction \<Rightarrow> err + tx_status"
  signatureExport :: "string \<Rightarrow> err + string"
  getSerializedAddressParameters :: "string \<Rightarrow> string \<Rightarrow> string \<Rightarrow> err + string"
  getCurrencySwapConfig :: "currency \<Rightarrow> err + swap_config"
  cancelAt :: "point option"

section \<open>Control flow of an async function\<close>

text \<open>
  A block of \<^verbatim>\<open>confirmSwap\<close> either runs to its end with a value, executes
  \<^verbatim>\<open>return\<close>, or throws.
\<close>

datatype 'a outcome = Normal 'a | Returned | Thrown err

type_synonym 'a flow = "state \<Rightarrow> 'a outcome \<times> state"

definition andThen :: "'a flow \<Rightarrow> ('a \<Rightarrow> 'b flow) \<Rightarrow> 'b flow" where
  "andThen m f s =
     (case m s of
        (Normal v, s') \<Rightarrow> f v s'
      | (Returned, s') \<Rightarrow> (Returned, s')
      | (Thrown e, s') \<Rightarrow> (Thrown e, s'))"

definition perform :: "action \<Rightarrow> unit flow" where
  "perform a s = (Normal (), s\<lparr>trace := trace s @ [a]\<rparr>)"

definition teardown :: "state \<Rightarrow> state" where
  "teardown s = s\<lparr>unsubscribed := True, trace := trace s @ [Unsubscribe]\<rparr>"

text \<open>
  \<^verbatim>\<open>await call\<close>: while the call is in flight the subscriber may unsubscribe; then
  the call settles, with a value or with a rejection that is thrown at the
  \<^verbatim>\<open>await\<close>.
\<close>

definition await :: "env \<Rightarrow> point \<Rightarrow> err + 'a \<Rightarrow> 'a flow" where
  "await ev p r s =
     (let s' = (if cancelAt ev = Some p then teardown s else s)
      in case r of Inl e \<Rightarrow> (Thrown e, s') | Inr v \<Rightarrow> (Normal v, s'))"

text \<open>A synchronous call of a collaborator that may throw.\<close>

definition sync :: "err + 'a \<Rightarrow> 'a flow" where
  "sync r s = (case r of Inl e \<Rightarrow> (Thrown e, s) | Inr v \<Rightarrow> (Normal v, s))"

definition throw :: "err \<Rightarrow> 'a flow" where
  "throw e s = (Thrown e, s)"

text \<open>\<^verbatim>\<open>if (unsubscribed) return;\<close>\<close>

definition returnIfUnsubscribed :: "unit flow" where
  "returnIfUnsubscribed s = (if unsubscribed s then (Returned, s) else (Normal (), s))"

section \<open>The flow\<close>

text \<open>
  Line 188 is \<^verbatim>\<open>amount.div(BigNumber(10).pow(unitFrom.magnitude))\<close>.
  \<^verbatim>\<open>BigNumber\<close> is the class of the bignumber.js library, which is not under src.
  The source never changes the library's configuration, so its defaults apply:
  \<^verbatim>\<open>pow\<close> with a natural exponent is exact, and \<^verbatim>\<open>div\<close> rounds the quotient to
  \<^verbatim>\<open>DECIMAL_PLACES = 20\<close> decimals with \<^verbatim>\<open>ROUNDING_MODE = ROUND_HALF_UP\<close>, that
  is to the nearest neighbour and away from zero when both are equally near.
\<close>

definition DECIMAL_PLACES :: nat where
  "DECIMAL_PLACES = 20"

definition roundHalfUp :: "nat \<Rightarrow> rat \<Rightarrow> rat" where
  "roundHalfUp dp x =
     (if 0 \<le> x then of_int \<lfloor>x * 10 ^ dp + 1 / 2\<rfloor> / 10 ^ dp
      else - (of_int \<lfloor>- x * 10 ^ dp + 1 / 2\<rfloor> / 10 ^ dp))"

definition bn_pow :: "BigNumber \<Rightarrow> nat \<Rightarrow> BigNumber" where
  "bn_pow x n = x ^ n"

text \<open>The divisor of line 188 is a power of ten, so a division by zero does not arise.\<close>

definition bn_div :: "BigNumber \<Rightarrow> BigNumber \<Rightarrow> BigNumber" where
  "bn_div x y = roundHalfUp DECIMAL_PLACES (x / y)"

definition apiAmount :: "BigNumber \<Rightarrow> nat \<Rightarrow> BigNumber" where
  "apiAmount amt mag = bn_div amt (bn_pow 10 mag)"

text \<open>Lines 175--188 and 198--209: the request built from the inputs and the nonce.\<close>

definition swapRequest ::
  "env \<Rightarrow> exchange \<Rightarrow> exchangeRate \<Rightarrow> transaction \<Rightarrow> string \<Rightarrow> swap_request" where
  "swapRequest ev exch rate tx deviceTransactionId =
     (let refundCurrency = getAccountCurrency ev (fromAccount exch);
          unitFrom = getAccountUnit ev (fromAccount exch);
          payoutCurrency = getAccountCurrency ev (toAccount exch);
          refundAccount = getMainAccount ev (fromAccount exch) (fromParentAccount exch);
          payoutAccount = getMainAccount ev (toAccount exch) (toParentAccount exch)
      in \<lparr> rq_provider = provider rate,
           rq_amountFrom = apiAmount (amount tx) (magnitude unitFrom),
           rq_from = cur_id refundCurrency,
           rq_to = cur_id payoutCurrency,
           rq_rateId = rateId rate,
           rq_address = freshAddress payoutAccount,
           rq_refundAddress = freshAddress refundAccount,
           rq_deviceTransactionId = deviceTransactionId \<rparr>)"

text \<open>
  Lines 193--218: the network call and its \<^verbatim>\<open>catch\<close> handler.  On a failure
  the handler emits the generic error, completes the observer, sets the flag and leaves
  \<^verbatim>\<open>res\<close> undefined.
\<close>

definition lockRate :: "env \<Rightarrow> swap_request \<Rightarrow> response option flow" where
  "lockRate ev req s =
     (case andThen (perform (Network req)) (\<lambda>_. await ev AtNetwork (network ev req)) s of
        (Thrown e, s') \<Rightarrow>
          (Normal None,
           s'\<lparr>unsubscribed := True,
              trace := trace s' @ [Next (InitSwapError SwapGenericAPIError), Complete]\<rparr>)
      | other \<Rightarrow> other)"

text \<open>
  Lines 171--222: the nonce, the rate lock, the guard of line 220 and the read of
  \<^verbatim>\<open>res.data[0]\<close>, whose destructuring at line 223 throws when there is no entry.
\<close>

definition requestQuote ::
  "env \<Rightarrow> exchange \<Rightarrow> exchangeRate \<Rightarrow> transaction \<Rightarrow> swap_result flow" where
  "requestQuote ev exch rate tx =
     andThen (perform (Device StartNewTransaction)) (\<lambda>_.
     andThen (await ev AtStartNewTransaction (swap ev StartNewTransaction))
       (\<lambda>deviceTransactionId.
     andThen (lockRate ev (swapRequest ev exch rate tx deviceTransactionId)) (\<lambda>res s.
       if unsubscribed s then (Returned, s)
       else case res of
         None \<Rightarrow> (Returned, s)
       | Some r \<Rightarrow>
           (case data r of
              None \<Rightarrow> (Returned, s)
            | Some [] \<Rightarrow> (Thrown TypeError, s)
            | Some (swapResult # _) \<Rightarrow> (Normal swapResult, s)))))"

text \<open>
  Lines 223--245: the provider lookup, the two currency checks, the substitution of the
  recipient and the invariant on the abandon-seed address.
\<close>

definition applyQuote ::
  "env \<Rightarrow> exchange \<Rightarrow> transaction \<Rightarrow> swap_result \<Rightarrow> (provider_info \<times> transaction) flow" where
  "applyQuote ev exch tx swapResult =
     (let refundCurrency = getAccountCurrency ev (fromAccount exch);
          payoutCurrency = getAccountCurrency ev (toAccount exch)
      in
     andThen (sync (getProviderNameAndSignature ev (sr_provider swapResult)))
       (\<lambda>providerNameAndSignature.
     if cur_type payoutCurrency \<noteq> ''CryptoCurrency''
     then throw (JsError ''How do I handle non CryptoCurrencies'')
     else if cur_type refundCurrency \<noteq> ''CryptoCurrency''
     then throw (JsError ''How do I handle non CryptoCurrencies'')
     else
     andThen (perform (Bridge (UpdateTransaction tx (payinAddress swapResult)))) (\<lambda>_.
     let tx' = updateTransaction ev tx (payinAddress swapResult) in
     andThen (sync (getAbandonSeedAddress ev (cur_id refundCurrency))) (\<lambda>abandon.
     if recipient tx' \<noteq> abandon
     then (\<lambda>s. (Normal (providerNameAndSignature, tx'), s))
     else throw (InvariantViolation
                   ''Recipient address should never be the abandonseed address'')))))"

text \<open>\<^verbatim>\<open>a || b\<close> on two values that are each an object or undefined.\<close>

definition firstNonNull :: "'a option \<Rightarrow> 'a option \<Rightarrow> 'a option" where
  "firstNonNull a b = (case a of Some x \<Rightarrow> Some x | None \<Rightarrow> b)"

text \<open>
  Lines 247--262: the bridge prepares and validates the transaction; line 260 tests
  \<^verbatim>\<open>errors.recipient || errors.amount\<close> and line 261 throws that value.
\<close>

definition prepareAndValidate ::
  "env \<Rightarrow> exchange \<Rightarrow> transaction \<Rightarrow> (transaction \<times> BigNumber) flow" where
  "prepareAndValidate ev exch tx =
     (let refundAccount = getMainAccount ev (fromAccount exch) (fromParentAccount exch)
      in
     andThen (perform (Bridge (PrepareTransaction refundAccount tx))) (\<lambda>_.
     andThen (await ev AtPrepareTransaction (prepareTransaction ev refundAccount tx))
       (\<lambda>tx'.
     andThen (perform (Bridge (GetTransactionStatus refundAccount tx'))) (\<lambda>_.
     andThen (await ev AtGetTransactionStatus (getTransactionStatus ev refundAccount tx'))
       (\<lambda>status.
     case firstNonNull (err_recipient (errors status)) (err_amount (errors status)) of
       Some e \<Rightarrow> throw e
     | None \<Rightarrow> (\<lambda>s. (Normal (tx', estimatedFees status), s)))))))"

text \<open>A device command: issued, then awaited.\<close>

definition device :: "env \<Rightarrow> point \<Rightarrow> command \<Rightarrow> string flow" where
  "device ev p c = andThen (perform (Device c)) (\<lambda>_. await ev p (swap ev c))"

text \<open>
  Lines 264--303: partner key, partner check, payload, signature, payout address, and
  the parameters and configuration of the refund address.
\<close>

definition deviceChecks ::
  "env \<Rightarrow> exchange \<Rightarrow> swap_result \<Rightarrow> provider_info \<Rightarrow> BigNumber \<Rightarrow> (swap_config \<times> string) flow"
  where
  "deviceChecks ev exch swapResult providerNameAndSignature fees =
     (let refundCurrency = getAccountCurrency ev (fromAccount exch);
          payoutCurrency = getAccountCurrency ev (toAccount exch);
          refundAccount = getMainAccount ev (fromAccount exch) (fromParentAccount exch);
          payoutAccount = getMainAccount ev (toAccount exch) (toParentAccount exch)
      in
     andThen (device ev AtSetPartnerKey (SetPartnerKey (nameAndPubkey providerNameAndSignature)))
       (\<lambda>_.
     andThen (device ev AtCheckPartner (CheckPartner (pi_signature providerNameAndSignature)))
       (\<lambda>_.
     andThen (device ev AtProcessTransaction
                (ProcessTransaction (binaryPayload swapResult) fees)) (\<lambda>_.
     andThen (sync (signatureExport ev (sr_signature swapResult))) (\<lambda>goodSign.
     andThen (device ev AtCheckTransactionSignature (CheckTransactionSignature goodSign))
       (\<lambda>_.
     andThen (await ev AtPayoutAddressParameters
                (getSerializedAddressParameters ev (cur_family payoutCurrency)
                   (freshAddressPath payoutAccount) (derivationMode payoutAccount)))
       (\<lambda>payoutAddressParameters.
     andThen (sync (getCurrencySwapConfig ev payoutCurrency)) (\<lambda>payoutConfig.
     andThen (device ev AtCheckPayoutAddress
                (CheckPayoutAddress (config payoutConfig) (sc_signature payoutConfig)
                   payoutAddressParameters)) (\<lambda>_.
     andThen (await ev AtRefundAddressParameters
                (getSerializedAddressParameters ev (cur_family refundCurrency)
                   (freshAddressPath refundAccount) (derivationMode refundAccount)))
       (\<lambda>refundAddressParameters.
     andThen (sync (getCurrencySwapConfig ev refundCurrency)) (\<lambda>refundConfig.
     (\<lambda>s. (Normal (refundConfig, refundAddressParameters), s)))))))))))))"

text \<open>Lines 305--318: the requested event, the last two device commands, the result.\<close>

definition confirmOnDevice ::
  "env \<Rightarrow> transaction \<Rightarrow> string \<Rightarrow> swap_config \<Rightarrow> string \<Rightarrow> unit flow" where
  "confirmOnDevice ev tx sid refundConfig refundAddressParameters =
     andThen returnIfUnsubscribed (\<lambda>_.
     andThen (perform (Next InitSwapRequested)) (\<lambda>_.
     andThen (device ev AtCheckRefundAddress
                (CheckRefundAddress (config refundConfig) (sc_signature refundConfig)
                   refundAddressParameters)) (\<lambda>_.
     andThen (device ev AtSignCoinTransaction SignCoinTransaction) (\<lambda>_.
     andThen returnIfUnsubscribed (\<lambda>_.
     perform (Next (InitSwapResult tx sid)))))))"

text \<open>Lines 170--319: the whole of \<^verbatim>\<open>confirmSwap\<close>.\<close>

definition confirmSwap :: "env \<Rightarrow> exchange \<Rightarrow> exchangeRate \<Rightarrow> transaction \<Rightarrow> unit flow" where
  "confirmSwap ev exch rate tx =
     andThen (requestQuote ev exch rate tx) (\<lambda>swapResult.
     andThen (applyQuote ev exch tx swapResult) (\<lambda>(providerNameAndSignature, tx1).
     andThen (prepareAndValidate ev exch tx1) (\<lambda>(tx2, fees).
     andThen (deviceChecks ev exch swapResult providerNameAndSignature fees)
       (\<lambda>(refundConfig, refundAddressParameters).
     confirmOnDevice ev tx2 (swapId swapResult) refundConfig refundAddressParameters))))"

text \<open>
  Lines 168--337: the subscription.  \<^verbatim>\<open>confirmSwap\<close> starts with the flag unset;
  when its promise is fulfilled the observer is completed, when it is rejected the
  error is emitted first; both handlers then set the flag.
\<close>

definition subscribe :: "env \<Rightarrow> exchange \<Rightarrow> exchangeRate \<Rightarrow> transaction \<Rightarrow> state" where
  "subscribe ev exch rate tx =
     (case confirmSwap ev exch rate tx \<lparr>unsubscribed = False, trace = []\<rparr> of
        (Thrown e, s) \<Rightarrow>
          s\<lparr>unsubscribed := True, trace := trace s @ [Next (InitSwapError e), Complete]\<rparr>
      | (_, s) \<Rightarrow> s\<lparr>unsubscribed := True, trace := trace s @ [Complete]\<rparr>)"

text \<open>
  Lines 160--339.  The transport that \<^verbatim>\<open>withDevice\<close> hands to the job is taken as
  open; the mock branch is a parameter.
\<close>

definition initSwap ::
  "env \<Rightarrow> exchange \<Rightarrow> exchangeRate \<Rightarrow> transaction \<Rightarrow> string \<Rightarrow> state" where
  "initSwap ev exch rate tx deviceId =
     (if MOCK ev then mockInitSwap ev exch rate deviceId else subscribe ev exch rate tx)"

section \<open>Observations on a trace\<close>

text \<open>
  The events are the arguments of the calls \<^verbatim>\<open>o.next\<close> that the flow makes, in
  the order it makes them.
\<close>

fun events :: "action list \<Rightarrow> event list" where
  "events [] = []"
| "events (Next e # as) = e # events as"
| "events (_ # as) = events as"

fun deviceCommands :: "action list \<Rightarrow> command list" where
  "deviceCommands [] = []"
| "deviceCommands (Device c # as) = c # deviceCommands as"
| "deviceCommands (_ # as) = deviceCommands as"

fun bridgeCalls :: "action list \<Rightarrow> bridge_call list" where
  "bridgeCalls [] = []"
| "bridgeCalls (Bridge b # as) = b # bridgeCalls as"
| "bridgeCalls (_ # as) = bridgeCalls as"

fun isTerminal :: "event \<Rightarrow> bool" where
  "isTerminal InitSwapRequested = False"
| "isTerminal (InitSwapResult _ _) = True"
| "isTerminal (InitSwapError _) = True"

text \<open>The actions that follow the teardown, none when the subscriber never unsubscribes.\<close>

fun afterUnsubscribe :: "action list \<Rightarrow> action list" where
  "afterUnsubscribe [] = []"
| "afterUnsubscribe (Unsubscribe # as) = as"
| "afterUnsubscribe (_ # as) = afterUnsubscribe as"

text \<open>
  The observer \<^verbatim>\<open>o\<close> is the subscriber that rxjs (imported at line 151, not under
  src) hands to the function given to \<^verbatim>\<open>Observable.create\<close> at line 168.  A
  subscriber is stopped by \<^verbatim>\<open>complete\<close> and by the unsubscription that runs the
  teardown, and a stopped subscriber ignores \<^verbatim>\<open>next\<close> and \<^verbatim>\<open>complete\<close>.
  \<open>observed stopped as\<close> keeps of the actions \<open>as\<close> what the outside sees: everything
  but the calls on a stopped subscriber.
\<close>

fun observed :: "bool \<Rightarrow> action list \<Rightarrow> action list" where
  "observed stopped [] = []"
| "observed stopped (Next e # as) =
     (if stopped then observed stopped as else Next e # observed stopped as)"
| "observed stopped (Complete # as) =
     (if stopped then observed stopped as else Complete # observed True as)"
| "observed stopped (Unsubscribe # as) = Unsubscribe # observed True as"
| "observed stopped (a # as) = a # observed stopped as"

text \<open>The events that carry an outcome of the flow's work: requested and result.\<close>

fun isProgress :: "event \<Rightarrow> bool" where
  "isProgress InitSwapRequested = True"
| "isProgress (InitSwapResult _ _) = True"
| "isProgress (InitSwapError _) = False"

text \<open>The request bodies posted, and the transactions handed to \<^verbatim>\<open>prepareTransaction\<close>.\<close>

fun networkRequests :: "action list \<Rightarrow> swap_request list" where
  "networkRequests [] = []"
| "networkRequests (Network rq # as) = rq # networkRequests as"
| "networkRequests (_ # as) = networkRequests as"

fun preparedTransactions :: "action list \<Rightarrow> transaction list" where
  "preparedTransactions [] = []"
| "preparedTransactions (Bridge (PrepareTransaction _ t) # as) = t # preparedTransactions as"
| "preparedTransactions (_ # as) = preparedTransactions as"


text \<open>A number with at most \<^verbatim>\<open>DECIMAL_PLACES\<close> decimals.\<close>

definition fitsDecimalPlaces :: "rat \<Rightarrow> bool" where
  "fitsDecimalPlaces x = (of_int \<lfloor>x * 10 ^ DECIMAL_PLACES\<rfloor> = x * 10 ^ DECIMAL_PLACES)"

text \<open>Exactly one terminal event, and nothing after a terminal event.\<close>

definition exactlyOneTerminal :: "event list \<Rightarrow> bool" where
  "exactlyOneTerminal es = (length (filter isTerminal es) = 1)"

fun noEventAfterTerminal :: "event list \<Rightarrow> bool" where
  "noEventAfterTerminal [] = True"
| "noEventAfterTerminal (e # es) = (if isTerminal e then es = [] else noEventAfterTerminal es)"





fun completions :: "action list \<Rightarrow> nat" where
  "completions [] = 0"
| "completions (Complete # as) = Suc (completions as)"
| "completions (_ # as) = completions as"

text \<open>\<^verbatim>\<open>!res || !res.data\<close> of line 220.\<close>

definition noData :: "response option \<Rightarrow> bool" where
  "noData res = (case res of None \<Rightarrow> True | Some r \<Rightarrow> data r = None)"

text \<open>
  The rate lock is answered: the device handed out a nonce and the network call either
  failed or resolved to a response that has a \<^verbatim>\<open>data\<close> field; or the nonce was
  refused and the call was never made.
\<close>

definition rateLockAnswered :: "env \<Rightarrow> exchange \<Rightarrow> exchangeRate \<Rightarrow> transaction \<Rightarrow> bool" where
  "rateLockAnswered ev exch rate tx =
     (case swap ev StartNewTransaction of
        Inl _ \<Rightarrow> True
      | Inr nonce \<Rightarrow>
          (case network ev (swapRequest ev exch rate tx nonce) of
             Inl _ \<Rightarrow> True
           | Inr res \<Rightarrow> \<not> noData res))"

section \<open>The account bridge\<close>

text \<open>
  Modelled from the spec: the account bridge (\<^verbatim>\<open>getAccountBridge\<close>, module
  \<^verbatim>\<open>../bridge\<close>) is not under src.  Sections 4.3 and 6 of the specification give
  \<^verbatim>\<open>updateTransaction(tx, patch) -> tx\<close>, which overwrites the fields named in the
  patch; the flow's patch names the recipient only.
\<close>

definition bridgeUpdateTransaction :: "transaction \<Rightarrow> string \<Rightarrow> transaction" where
  "bridgeUpdateTransaction t r = t\<lparr>recipient := r\<rparr>"

section \<open>Concrete runs\<close>

definition btc :: currency where
  "btc = \<lparr>cur_id = ''bitcoin'', cur_type = ''CryptoCurrency'', cur_family = ''bitcoin''\<rparr>"

definition eth :: currency where
  "eth = \<lparr>cur_id = ''ethereum'', cur_type = ''CryptoCurrency'', cur_family = ''ethereum''\<rparr>"

definition usdt :: currency where
  "usdt = \<lparr>cur_id = ''ethereum/erc20/usd_tether'', cur_type = ''TokenCurrency'',
            cur_family = ''ethereum''\<rparr>"

definition btcAccount :: account where
  "btcAccount = \<lparr>freshAddress = ''bc1-refund'', freshAddressPath = ''84h/0h/0h/0/0'',
                  derivationMode = ''native_segwit''\<rparr>"

definition ethAccount :: account where
  "ethAccount = \<lparr>freshAddress = ''0x-payout'', freshAddressPath = ''44h/60h/0h/0/0'',
                  derivationMode = ''''\<rparr>"

definition demoExchange :: exchange where
  "demoExchange = \<lparr>fromParentAccount = None, fromAccount = btcAccount,
                    toParentAccount = None, toAccount = ethAccount\<rparr>"

definition demoRate :: exchangeRate where
  "demoRate = \<lparr>provider = ''changelly'', rateId = ''rate-7''\<rparr>"

definition demoTransaction :: transaction where
  "demoTransaction = \<lparr>amount = 150000000, recipient = ''bc1-abandon''\<rparr>"

definition demoQuote :: swap_result where
  "demoQuote = \<lparr>swapId = ''swap-42'', sr_provider = ''changelly'', payinAddress = ''bc1-payin'',
                 binaryPayload = ''0a0b'', sr_signature = ''3045''\<rparr>"

text \<open>Every collaborator answers; nobody unsubscribes.\<close>

definition happyEnv :: env where
  "happyEnv = \<lparr>
     MOCK = False,
     mockInitSwap = (\<lambda>_ _ _. \<lparr>unsubscribed = True, trace = []\<rparr>),
     getAccountCurrency = (\<lambda>a. if a = btcAccount then btc else eth),
     getAccountUnit = (\<lambda>_. \<lparr>magnitude = 8\<rparr>),
     getMainAccount = (\<lambda>a _. a),
     swap = (\<lambda>c. case c of StartNewTransaction \<Rightarrow> Inr ''nonce-1'' | _ \<Rightarrow> Inr []),
     network = (\<lambda>_. Inr (Some \<lparr>data = Some [demoQuote]\<rparr>)),
     getProviderNameAndSignature =
       (\<lambda>_. Inr \<lparr>nameAndPubkey = ''changelly-key'', pi_signature = ''sig-p''\<rparr>),
     updateTransaction = bridgeUpdateTransaction,
     getAbandonSeedAddress = (\<lambda>_. Inr ''bc1-abandon''),
     prepareTransaction = (\<lambda>_ t. Inr t),
     getTransactionStatus =
       (\<lambda>_ _. Inr \<lparr>errors = \<lparr>err_recipient = None, err_amount = None\<rparr>,
                    estimatedFees = 1200\<rparr>),
     signatureExport = (\<lambda>s. Inr s),
     getSerializedAddressParameters = (\<lambda>_ p _. Inr p),
     getCurrencySwapConfig = (\<lambda>c. Inr \<lparr>config = cur_id c, sc_signature = ''sig-c''\<rparr>),
     cancelAt = None \<rparr>"

text \<open>One smallest unit of a currency whose unit has 21 decimals.\<close>

definition dustTransaction :: transaction where
  "dustTransaction = \<lparr>amount = 1, recipient = ''bc1-abandon''\<rparr>"

definition fineUnitEnv :: env where
  "fineUnitEnv = happyEnv\<lparr>getAccountUnit := (\<lambda>_. \<lparr>magnitude = 21\<rparr>)\<rparr>"

text \<open>The rate-lock call resolves to a falsy value.\<close>

definition silentEnv :: env where
  "silentEnv = happyEnv\<lparr>network := (\<lambda>_. Inr None)\<rparr>"

text \<open>The rate-lock call resolves to an object without \<^verbatim>\<open>data\<close>.\<close>

definition dataLessEnv :: env where
  "dataLessEnv = happyEnv\<lparr>network := (\<lambda>_. Inr (Some \<lparr>data = None\<rparr>))\<rparr>"

text \<open>The subscriber unsubscribes while the last device command is in flight.\<close>

definition lateCancelEnv :: env where
  "lateCancelEnv = happyEnv\<lparr>cancelAt := Some AtSignCoinTransaction\<rparr>"

text \<open>The subscriber unsubscribes while the device checks the refund address.\<close>

definition refundCancelEnv :: env where
  "refundCancelEnv = happyEnv\<lparr>cancelAt := Some AtCheckRefundAddress\<rparr>"

text \<open>The rate-lock call fails.\<close>

definition apiDownEnv :: env where
  "apiDownEnv = happyEnv\<lparr>network := (\<lambda>_. Inl (Rejected ''ECONNRESET''))\<rparr>"

definition apiTimeoutEnv :: env where
  "apiTimeoutEnv = happyEnv\<lparr>network := (\<lambda>_. Inl (Rejected ''ETIMEDOUT''))\<rparr>"

text \<open>The rate-lock call fails after the subscriber has unsubscribed.\<close>

definition cancelledApiDownEnv :: env where
  "cancelledApiDownEnv = apiDownEnv\<lparr>cancelAt := Some AtNetwork\<rparr>"

text \<open>The payout account, or the refund account, holds a token.\<close>

definition tokenEnv :: env where
  "tokenEnv = happyEnv\<lparr>getAccountCurrency := (\<lambda>a. if a = btcAccount then btc else usdt)\<rparr>"

definition tokenRefundEnv :: env where
  "tokenRefundEnv = happyEnv\<lparr>getAccountCurrency := (\<lambda>a. if a = btcAccount then usdt else eth)\<rparr>"

text \<open>The quote's pay-in address is the abandon-seed address of the refund currency.\<close>

definition abandonEnv :: env where
  "abandonEnv = happyEnv\<lparr>getAbandonSeedAddress := (\<lambda>_. Inr ''bc1-payin'')\<rparr>"

definition abandonBtcEnv :: env where
  "abandonBtcEnv = happyEnv\<lparr>getAbandonSeedAddress :=
     (\<lambda>c. if c = ''bitcoin'' then Inr (payinAddress demoQuote) else Inr ''0x-abandon'')\<rparr>"

text \<open>The bridge rejects the amount, or the recipient and the amount.\<close>

definition amountErrorEnv :: env where
  "amountErrorEnv = happyEnv\<lparr>getTransactionStatus :=
     (\<lambda>_ _. Inr \<lparr>errors = \<lparr>err_recipient = None,
                             err_amount = Some (Rejected ''NotEnoughBalance'')\<rparr>,
                  estimatedFees = 1200\<rparr>)\<rparr>"

definition bothErrorsEnv :: env where
  "bothErrorsEnv = happyEnv\<lparr>getTransactionStatus :=
     (\<lambda>_ _. Inr \<lparr>errors = \<lparr>err_recipient = Some (Rejected ''InvalidAddress''),
                             err_amount = Some (Rejected ''NotEnoughBalance'')\<rparr>,
                  estimatedFees = 1200\<rparr>)\<rparr>"

section \<open>Unfolding the flow\<close>

lemmas flow_defs = initSwap_def subscribe_def confirmSwap_def requestQuote_def applyQuote_def
  prepareAndValidate_def deviceChecks_def confirmOnDevice_def lockRate_def
  device_def andThen_def perform_def await_def sync_def throw_def returnIfUnsubscribed_def
  teardown_def firstNonNull_def Let_def

lemma happyEnv_fields:
  "MOCK happyEnv = False"
  "getAccountCurrency happyEnv = (\<lambda>a. if a = btcAccount then btc else eth)"
  "getAccountUnit happyEnv = (\<lambda>_. \<lparr>magnitude = 8\<rparr>)"
  "getMainAccount happyEnv = (\<lambda>a _. a)"
  "swap happyEnv = (\<lambda>c. case c of StartNewTransaction \<Rightarrow> Inr ''nonce-1'' | _ \<Rightarrow> Inr [])"
  "network happyEnv = (\<lambda>_. Inr (Some \<lparr>data = Some [demoQuote]\<rparr>))"
  "getProviderNameAndSignature happyEnv =
     (\<lambda>_. Inr \<lparr>nameAndPubkey = ''changelly-key'', pi_signature = ''sig-p''\<rparr>)"
  "updateTransaction happyEnv = bridgeUpdateTransaction"
  "getAbandonSeedAddress happyEnv = (\<lambda>_. Inr ''bc1-abandon'')"
  "prepareTransaction happyEnv = (\<lambda>_ t. Inr t)"
  "getTransactionStatus happyEnv =
     (\<lambda>_ _. Inr \<lparr>errors = \<lparr>err_recipient = None, err_amount = None\<rparr>,
                  estimatedFees = 1200\<rparr>)"
  "signatureExport happyEnv = (\<lambda>s. Inr s)"
  "getSerializedAddressParameters happyEnv = (\<lambda>_ p _. Inr p)"
  "getCurrencySwapConfig happyEnv = (\<lambda>c. Inr \<lparr>config = cur_id c, sc_signature = ''sig-c''\<rparr>)"
  "cancelAt happyEnv = None"
  by (simp_all add: happyEnv_def)

lemmas run_defs = happyEnv_fields silentEnv_def dataLessEnv_def lateCancelEnv_def
  refundCancelEnv_def apiDownEnv_def apiTimeoutEnv_def cancelledApiDownEnv_def tokenEnv_def
  tokenRefundEnv_def abandonEnv_def abandonBtcEnv_def amountErrorEnv_def bothErrorsEnv_def
  btc_def eth_def usdt_def btcAccount_def ethAccount_def demoExchange_def demoRate_def
  demoTransaction_def demoQuote_def bridgeUpdateTransaction_def

section \<open>Terminal events\<close>

text \<open>Whatever the collaborators answer, the emitted events have one of five shapes.\<close>

lemma events_shape:
  assumes "\<not> MOCK ev"
  shows "events (trace (initSwap ev exch rate tx d)) = []
     \<or> (\<exists>e. events (trace (initSwap ev exch rate tx d)) = [InitSwapError e])
     \<or> events (trace (initSwap ev exch rate tx d)) = [InitSwapRequested]
     \<or> (\<exists>t i. events (trace (initSwap ev exch rate tx d)) = [InitSwapRequested, InitSwapResult t i])
     \<or> (\<exists>e. events (trace (initSwap ev exch rate tx d)) = [InitSwapRequested, InitSwapError e])"
proof (cases "cancelAt ev")
  case None
  then show ?thesis using assms
    by (simp add: flow_defs split: sum.splits option.splits list.splits)
next
  case (Some p)
  then show ?thesis using assms
    by (cases p) (simp_all add: flow_defs split: sum.splits option.splits list.splits)
qed

text \<open>Without cancellation an answered rate lock always leads to a terminal event.\<close>

lemma uncancelled_not_silent:
  assumes m: "\<not> MOCK ev" and c: "cancelAt ev = None" and r: "rateLockAnswered ev exch rate tx"
  shows "events (trace (initSwap ev exch rate tx d)) \<noteq> []
       \<and> events (trace (initSwap ev exch rate tx d)) \<noteq> [InitSwapRequested]"
proof (cases "swap ev StartNewTransaction")
  case (Inl e)
  then show ?thesis using m c
    by (simp add: flow_defs)
next
  case (Inr nonce)
  show ?thesis
  proof (cases "network ev (swapRequest ev exch rate tx nonce)")
    case (Inl e)
    then show ?thesis using m c Inr
      by (simp add: flow_defs)
  next
    case net: (Inr res)
    with r Inr obtain rsp ds where res: "res = Some rsp" and ds: "data rsp = Some ds"
      by (auto simp: rateLockAnswered_def noData_def split: option.splits)
    show ?thesis using m c Inr net res ds
      by (simp add: flow_defs split: sum.splits option.splits list.splits)
  qed
qed

text \<open>
  C1, as the code has it: every invocation emits at most one terminal event (so never
  both a result and an error) and nothing after it; it emits exactly one when the
  subscriber does not unsubscribe and the rate lock is answered (the call fails, or
  resolves to a response that has a data field).
\<close>

theorem initSwap_at_most_one_terminal:
  assumes "\<not> MOCK ev"
  shows "length (filter isTerminal (events (trace (initSwap ev exch rate tx d)))) \<le> 1
       \<and> noEventAfterTerminal (events (trace (initSwap ev exch rate tx d)))
       \<and> (cancelAt ev = None \<and> rateLockAnswered ev exch rate tx
            \<longrightarrow> exactlyOneTerminal (events (trace (initSwap ev exch rate tx d))))"
proof -
  let ?es = "events (trace (initSwap ev exch rate tx d))"
  note shape = events_shape [OF assms, of exch rate tx d]
  from shape have "length (filter isTerminal ?es) \<le> 1 \<and> noEventAfterTerminal ?es"
    by (elim disjE exE) simp_all
  moreover have "exactlyOneTerminal ?es"
    if "cancelAt ev = None \<and> rateLockAnswered ev exch rate tx"
  proof -
    from that uncancelled_not_silent [OF assms, of exch rate tx d]
    have "?es \<noteq> []" and "?es \<noteq> [InitSwapRequested]" by simp_all
    with shape show ?thesis
      by (elim disjE exE) (simp_all add: exactlyOneTerminal_def)
  qed
  ultimately show ?thesis by blast
qed

text \<open>
  C1 as stated fails: a rate-lock response that is falsy ends the stream without any
  event, and a subscriber that unsubscribes during the last device command gets the
  requested event only.
\<close>

theorem initSwap_exactly_one_terminal_counterexample:
  "events (trace (initSwap silentEnv demoExchange demoRate demoTransaction ''usb-1'')) = []
   \<and> \<not> exactlyOneTerminal
        (events (trace (initSwap silentEnv demoExchange demoRate demoTransaction ''usb-1'')))
   \<and> events (trace (initSwap lateCancelEnv demoExchange demoRate demoTransaction ''usb-1''))
       = [InitSwapRequested]
   \<and> \<not> exactlyOneTerminal
        (events (trace (initSwap lateCancelEnv demoExchange demoRate demoTransaction ''usb-1'')))"
proof -
  have silent:
    "events (trace (initSwap silentEnv demoExchange demoRate demoTransaction ''usb-1'')) = []"
    by (simp add: flow_defs run_defs)
  have late:
    "events (trace (initSwap lateCancelEnv demoExchange demoRate demoTransaction ''usb-1''))
       = [InitSwapRequested]"
    by (simp add: flow_defs run_defs)
  show ?thesis by (simp add: silent late exactlyOneTerminal_def)
qed

theorem initSwap_at_most_one_terminal_witness:
  "\<not> MOCK happyEnv \<and> cancelAt happyEnv = None
   \<and> rateLockAnswered happyEnv demoExchange demoRate demoTransaction
   \<and> exactlyOneTerminal
       (events (trace (initSwap happyEnv demoExchange demoRate demoTransaction ''usb-1'')))"
proof -
  have m: "\<not> MOCK happyEnv" by (simp add: happyEnv_fields)
  have c: "cancelAt happyEnv = None" by (simp add: happyEnv_fields)
  have r: "rateLockAnswered happyEnv demoExchange demoRate demoTransaction"
    by (simp add: rateLockAnswered_def noData_def happyEnv_fields)
  from initSwap_at_most_one_terminal [OF m, of demoExchange demoRate demoTransaction "''usb-1''"]
  show ?thesis using m c r by blast
qed

section \<open>Cancellation\<close>

text \<open>Nothing that is handed to a stopped subscriber reaches the stream.\<close>

lemma events_observed_stopped: "events (observed True as) = []"
proof (induction as)
  case Nil
  show ?case by simp
next
  case (Cons a as)
  then show ?case by (cases a) simp_all
qed

lemma no_event_observed_after_unsubscribe:
  "events (afterUnsubscribe (observed stopped as)) = []"
proof (induction as arbitrary: stopped)
  case Nil
  show ?case by simp
next
  case (Cons a as)
  then show ?case by (cases a) (simp_all add: events_observed_stopped)
qed

text \<open>
  What the flow itself still hands to the observer after an unsubscription: nothing,
  or the error of a call that has failed.
\<close>

lemma calls_after_unsubscribe:
  assumes "\<not> MOCK ev"
  shows "events (afterUnsubscribe (trace (initSwap ev exch rate tx d))) = []
       \<or> (\<exists>e. events (afterUnsubscribe (trace (initSwap ev exch rate tx d)))
                 = [InitSwapError e])"
proof (cases "cancelAt ev")
  case None
  then show ?thesis using assms
    by (simp add: flow_defs split: sum.splits option.splits list.splits)
next
  case (Some p)
  then show ?thesis using assms
    by (cases p) (simp_all add: flow_defs split: sum.splits option.splits list.splits)
qed

text \<open>
  C2: whenever the subscriber unsubscribes, no event of any kind reaches the stream
  afterwards.  The call in flight completes and the flow may go on, but its outcome is
  discarded: after the unsubscription the flow hands neither the requested nor the
  result event to the observer, and the observer, being stopped, lets nothing through,
  the error of a failed call included.
\<close>

theorem no_event_after_unsubscribe:
  assumes "\<not> MOCK ev"
  shows "events (afterUnsubscribe (observed False (trace (initSwap ev exch rate tx d)))) = []
       \<and> filter isProgress (events (afterUnsubscribe (trace (initSwap ev exch rate tx d)))) = []"
proof -
  from calls_after_unsubscribe [OF assms, of exch rate tx d]
  have "filter isProgress (events (afterUnsubscribe (trace (initSwap ev exch rate tx d)))) = []"
    by (elim disjE exE) simp_all
  then show ?thesis by (simp add: no_event_observed_after_unsubscribe)
qed

theorem no_event_after_unsubscribe_witness:
  "\<not> MOCK cancelledApiDownEnv
   \<and> Unsubscribe
       \<in> set (trace (initSwap cancelledApiDownEnv demoExchange demoRate demoTransaction ''usb-1''))
   \<and> events (afterUnsubscribe (observed False
       (trace (initSwap cancelledApiDownEnv demoExchange demoRate demoTransaction ''usb-1''))))
      = []
   \<and> filter isProgress (events (afterUnsubscribe
       (trace (initSwap cancelledApiDownEnv demoExchange demoRate demoTransaction ''usb-1''))))
      = []"
proof -
  have m: "\<not> MOCK cancelledApiDownEnv"
    by (simp add: cancelledApiDownEnv_def apiDownEnv_def happyEnv_fields)
  have u: "Unsubscribe
       \<in> set (trace (initSwap cancelledApiDownEnv demoExchange demoRate demoTransaction ''usb-1''))"
    by (simp add: flow_defs run_defs)
  from no_event_after_unsubscribe [OF m, of demoExchange demoRate demoTransaction "''usb-1''"] m u
  show ?thesis by blast
qed

section \<open>Failure of the rate lock\<close>

text \<open>
  C3, as the code has it: when the rate-lock call fails, the single event is the error
  \<^verbatim>\<open>SwapGenericAPIError\<close>, and the only device command of the whole invocation is
  \<^verbatim>\<open>startNewTransaction\<close>, issued before the call to obtain the nonce that the
  request carries; the bridge is not called.
\<close>

theorem rate_lock_failure_is_generic_error:
  assumes "\<not> MOCK ev"
    and "swap ev StartNewTransaction = Inr nonce"
    and "network ev (swapRequest ev exch rate tx nonce) = Inl e"
  shows "events (trace (initSwap ev exch rate tx d)) = [InitSwapError SwapGenericAPIError]
       \<and> deviceCommands (trace (initSwap ev exch rate tx d)) = [StartNewTransaction]
       \<and> bridgeCalls (trace (initSwap ev exch rate tx d)) = []"
  using assms by (simp add: flow_defs)

text \<open>C3 as stated fails: a device command has been issued when the call fails.\<close>

theorem rate_lock_failure_no_device_counterexample:
  "events (trace (initSwap apiDownEnv demoExchange demoRate demoTransaction ''usb-1''))
     = [InitSwapError SwapGenericAPIError]
   \<and> deviceCommands (trace (initSwap apiDownEnv demoExchange demoRate demoTransaction ''usb-1''))
     \<noteq> []"
  by (simp add: flow_defs run_defs)

theorem rate_lock_failure_is_generic_error_witness:
  "\<not> MOCK apiTimeoutEnv
   \<and> swap apiTimeoutEnv StartNewTransaction = Inr ''nonce-1''
   \<and> network apiTimeoutEnv
        (swapRequest apiTimeoutEnv demoExchange demoRate demoTransaction ''nonce-1'')
       = Inl (Rejected ''ETIMEDOUT'')
   \<and> events (trace (initSwap apiTimeoutEnv demoExchange demoRate demoTransaction ''usb-1''))
       = [InitSwapError SwapGenericAPIError]
   \<and> deviceCommands
        (trace (initSwap apiTimeoutEnv demoExchange demoRate demoTransaction ''usb-1''))
       = [StartNewTransaction]
   \<and> bridgeCalls
        (trace (initSwap apiTimeoutEnv demoExchange demoRate demoTransaction ''usb-1''))
       = []"
proof -
  have m: "\<not> MOCK apiTimeoutEnv" by (simp add: apiTimeoutEnv_def happyEnv_fields)
  have s: "swap apiTimeoutEnv StartNewTransaction = Inr ''nonce-1''"
    by (simp add: apiTimeoutEnv_def happyEnv_fields)
  have n: "network apiTimeoutEnv
             (swapRequest apiTimeoutEnv demoExchange demoRate demoTransaction ''nonce-1'')
           = Inl (Rejected ''ETIMEDOUT'')"
    by (simp add: apiTimeoutEnv_def)
  from rate_lock_failure_is_generic_error [OF m s n, of "''usb-1''"] m s n
  show ?thesis by blast
qed

section \<open>Currencies that are not of type CryptoCurrency\<close>

text \<open>
  C4, as the code has it: the check of lines 228--234 is reached once the nonce is
  obtained, the rate lock has returned an entry, the provider is known and the
  subscriber has not unsubscribed in the meantime.  If then the payout or the refund
  currency is not of type CryptoCurrency, the single event is the error
  \<^verbatim>\<open>Error("How do I handle non CryptoCurrencies")\<close>; the bridge has not been called, and
  no device command other than the initial \<^verbatim>\<open>startNewTransaction\<close> is issued.
\<close>

theorem non_crypto_currency_is_rejected:
  assumes "\<not> MOCK ev"
    and "swap ev StartNewTransaction = Inr nonce"
    and "network ev (swapRequest ev exch rate tx nonce) = Inr (Some r)"
    and "data r = Some (q # qs)"
    and "getProviderNameAndSignature ev (sr_provider q) = Inr pinfo"
    and "cancelAt ev \<noteq> Some AtStartNewTransaction"
    and "cancelAt ev \<noteq> Some AtNetwork"
    and "cur_type (getAccountCurrency ev (toAccount exch)) \<noteq> ''CryptoCurrency''
       \<or> cur_type (getAccountCurrency ev (fromAccount exch)) \<noteq> ''CryptoCurrency''"
  shows "events (trace (initSwap ev exch rate tx d))
           = [InitSwapError (JsError ''How do I handle non CryptoCurrencies'')]
       \<and> bridgeCalls (trace (initSwap ev exch rate tx d)) = []
       \<and> deviceCommands (trace (initSwap ev exch rate tx d)) = [StartNewTransaction]"
  using assms by (auto simp add: flow_defs)

text \<open>C4 as stated fails: the device has been addressed before the currencies are checked.\<close>

theorem non_crypto_currency_no_device_counterexample:
  "events (trace (initSwap tokenEnv demoExchange demoRate demoTransaction ''usb-1''))
     = [InitSwapError (JsError ''How do I handle non CryptoCurrencies'')]
   \<and> deviceCommands (trace (initSwap tokenEnv demoExchange demoRate demoTransaction ''usb-1''))
     \<noteq> []"
  by (simp add: flow_defs run_defs)

theorem non_crypto_currency_is_rejected_witness:
  "cur_type (getAccountCurrency tokenRefundEnv (fromAccount demoExchange)) \<noteq> ''CryptoCurrency''
   \<and> events (trace (initSwap tokenRefundEnv demoExchange demoRate demoTransaction ''usb-1''))
       = [InitSwapError (JsError ''How do I handle non CryptoCurrencies'')]
   \<and> bridgeCalls (trace (initSwap tokenRefundEnv demoExchange demoRate demoTransaction ''usb-1''))
       = []
   \<and> deviceCommands
        (trace (initSwap tokenRefundEnv demoExchange demoRate demoTransaction ''usb-1''))
       = [StartNewTransaction]"
proof -
  have m: "\<not> MOCK tokenRefundEnv" by (simp add: tokenRefundEnv_def happyEnv_fields)
  have s: "swap tokenRefundEnv StartNewTransaction = Inr ''nonce-1''"
    by (simp add: tokenRefundEnv_def happyEnv_fields)
  have n: "network tokenRefundEnv
             (swapRequest tokenRefundEnv demoExchange demoRate demoTransaction ''nonce-1'')
           = Inr (Some \<lparr>data = Some [demoQuote]\<rparr>)"
    by (simp add: tokenRefundEnv_def happyEnv_fields)
  have dt: "data \<lparr>data = Some [demoQuote]\<rparr> = Some (demoQuote # [])" by simp
  have p: "getProviderNameAndSignature tokenRefundEnv (sr_provider demoQuote)
           = Inr \<lparr>nameAndPubkey = ''changelly-key'', pi_signature = ''sig-p''\<rparr>"
    by (simp add: tokenRefundEnv_def happyEnv_fields)
  have c1: "cancelAt tokenRefundEnv \<noteq> Some AtStartNewTransaction"
    by (simp add: tokenRefundEnv_def happyEnv_fields)
  have c2: "cancelAt tokenRefundEnv \<noteq> Some AtNetwork"
    by (simp add: tokenRefundEnv_def happyEnv_fields)
  have t: "cur_type (getAccountCurrency tokenRefundEnv (fromAccount demoExchange))
             \<noteq> ''CryptoCurrency''"
    by (simp add: tokenRefundEnv_def demoExchange_def usdt_def)
  then have t': "cur_type (getAccountCurrency tokenRefundEnv (toAccount demoExchange))
                   \<noteq> ''CryptoCurrency''
       \<or> cur_type (getAccountCurrency tokenRefundEnv (fromAccount demoExchange))
                   \<noteq> ''CryptoCurrency''" by blast
  from non_crypto_currency_is_rejected [OF m s n dt p c1 c2 t', of "''usb-1''"] t
  show ?thesis by blast
qed

section \<open>The abandon-seed address\<close>

text \<open>
  C5, as the code has it: when the flow reaches the substitution and the substituted
  recipient equals the abandon-seed address of the refund currency, the single event
  is the error raised by \<^verbatim>\<open>invariant\<close>; the bridge has only substituted the
  recipient, and no device command other than the initial
  \<^verbatim>\<open>startNewTransaction\<close> is issued.
\<close>

theorem abandon_seed_recipient_is_rejected:
  assumes "\<not> MOCK ev"
    and "swap ev StartNewTransaction = Inr nonce"
    and "network ev (swapRequest ev exch rate tx nonce) = Inr (Some r)"
    and "data r = Some (q # qs)"
    and "getProviderNameAndSignature ev (sr_provider q) = Inr pinfo"
    and "cancelAt ev \<noteq> Some AtStartNewTransaction"
    and "cancelAt ev \<noteq> Some AtNetwork"
    and "cur_type (getAccountCurrency ev (toAccount exch)) = ''CryptoCurrency''"
    and "cur_type (getAccountCurrency ev (fromAccount exch)) = ''CryptoCurrency''"
    and "getAbandonSeedAddress ev (cur_id (getAccountCurrency ev (fromAccount exch))) = Inr a"
    and "recipient (updateTransaction ev tx (payinAddress q)) = a"
  shows "events (trace (initSwap ev exch rate tx d))
           = [InitSwapError (InvariantViolation
                ''Recipient address should never be the abandonseed address'')]
       \<and> bridgeCalls (trace (initSwap ev exch rate tx d))
           = [UpdateTransaction tx (payinAddress q)]
       \<and> deviceCommands (trace (initSwap ev exch rate tx d)) = [StartNewTransaction]"
  using assms by (simp add: flow_defs)

text \<open>C5 as stated fails: a device call has been made before the invariant is checked.\<close>

theorem abandon_seed_no_device_counterexample:
  "events (trace (initSwap abandonEnv demoExchange demoRate demoTransaction ''usb-1''))
     = [InitSwapError (InvariantViolation
          ''Recipient address should never be the abandonseed address'')]
   \<and> deviceCommands (trace (initSwap abandonEnv demoExchange demoRate demoTransaction ''usb-1''))
     \<noteq> []"
  by (simp add: flow_defs run_defs)

theorem abandon_seed_recipient_is_rejected_witness:
  "recipient (updateTransaction abandonBtcEnv demoTransaction (payinAddress demoQuote))
     = ''bc1-payin''
   \<and> getAbandonSeedAddress abandonBtcEnv
       (cur_id (getAccountCurrency abandonBtcEnv (fromAccount demoExchange))) = Inr ''bc1-payin''
   \<and> events (trace (initSwap abandonBtcEnv demoExchange demoRate demoTransaction ''usb-1''))
       = [InitSwapError (InvariantViolation
            ''Recipient address should never be the abandonseed address'')]
   \<and> bridgeCalls (trace (initSwap abandonBtcEnv demoExchange demoRate demoTransaction ''usb-1''))
       = [UpdateTransaction demoTransaction (payinAddress demoQuote)]
   \<and> deviceCommands
        (trace (initSwap abandonBtcEnv demoExchange demoRate demoTransaction ''usb-1''))
       = [StartNewTransaction]"
proof -
  have m: "\<not> MOCK abandonBtcEnv" by (simp add: abandonBtcEnv_def happyEnv_fields)
  have s: "swap abandonBtcEnv StartNewTransaction = Inr ''nonce-1''"
    by (simp add: abandonBtcEnv_def happyEnv_fields)
  have n: "network abandonBtcEnv
             (swapRequest abandonBtcEnv demoExchange demoRate demoTransaction ''nonce-1'')
           = Inr (Some \<lparr>data = Some [demoQuote]\<rparr>)"
    by (simp add: abandonBtcEnv_def happyEnv_fields)
  have dt: "data \<lparr>data = Some [demoQuote]\<rparr> = Some (demoQuote # [])" by simp
  have p: "getProviderNameAndSignature abandonBtcEnv (sr_provider demoQuote)
           = Inr \<lparr>nameAndPubkey = ''changelly-key'', pi_signature = ''sig-p''\<rparr>"
    by (simp add: abandonBtcEnv_def happyEnv_fields)
  have c1: "cancelAt abandonBtcEnv \<noteq> Some AtStartNewTransaction"
    by (simp add: abandonBtcEnv_def happyEnv_fields)
  have c2: "cancelAt abandonBtcEnv \<noteq> Some AtNetwork"
    by (simp add: abandonBtcEnv_def happyEnv_fields)
  have t1: "cur_type (getAccountCurrency abandonBtcEnv (toAccount demoExchange))
              = ''CryptoCurrency''"
    by (simp add: abandonBtcEnv_def happyEnv_fields demoExchange_def btcAccount_def
          ethAccount_def eth_def)
  have t2: "cur_type (getAccountCurrency abandonBtcEnv (fromAccount demoExchange))
              = ''CryptoCurrency''"
    by (simp add: abandonBtcEnv_def happyEnv_fields demoExchange_def btc_def)
  have a: "getAbandonSeedAddress abandonBtcEnv
             (cur_id (getAccountCurrency abandonBtcEnv (fromAccount demoExchange)))
           = Inr ''bc1-payin''"
    by (simp add: abandonBtcEnv_def happyEnv_fields demoExchange_def btc_def demoQuote_def)
  have u: "recipient (updateTransaction abandonBtcEnv demoTransaction (payinAddress demoQuote))
           = ''bc1-payin''"
    by (simp add: abandonBtcEnv_def happyEnv_fields bridgeUpdateTransaction_def demoQuote_def)
  from abandon_seed_recipient_is_rejected [OF m s n dt p c1 c2 t1 t2 a u, of "''usb-1''"] a u
  show ?thesis by blast
qed

section \<open>Validation errors of the bridge\<close>

text \<open>
  C6, as the code has it: when the flow reaches the transaction status and the status
  carries a recipient error or an amount error, the single event is an error carrying
  the first non-null of the two, and no device command other than the initial
  \<^verbatim>\<open>startNewTransaction\<close> is issued.
\<close>

theorem validation_error_is_reported:
  assumes "\<not> MOCK ev"
    and "swap ev StartNewTransaction = Inr nonce"
    and "network ev (swapRequest ev exch rate tx nonce) = Inr (Some r)"
    and "data r = Some (q # qs)"
    and "getProviderNameAndSignature ev (sr_provider q) = Inr pinfo"
    and "cancelAt ev \<noteq> Some AtStartNewTransaction"
    and "cancelAt ev \<noteq> Some AtNetwork"
    and "cur_type (getAccountCurrency ev (toAccount exch)) = ''CryptoCurrency''"
    and "cur_type (getAccountCurrency ev (fromAccount exch)) = ''CryptoCurrency''"
    and "getAbandonSeedAddress ev (cur_id (getAccountCurrency ev (fromAccount exch))) = Inr a"
    and "recipient (updateTransaction ev tx (payinAddress q)) \<noteq> a"
    and "prepareTransaction ev (getMainAccount ev (fromAccount exch) (fromParentAccount exch))
           (updateTransaction ev tx (payinAddress q)) = Inr tx2"
    and "getTransactionStatus ev (getMainAccount ev (fromAccount exch) (fromParentAccount exch))
           tx2 = Inr st"
    and "err_recipient (errors st) \<noteq> None \<or> err_amount (errors st) \<noteq> None"
  shows "(\<exists>e. firstNonNull (err_recipient (errors st)) (err_amount (errors st)) = Some e
            \<and> events (trace (initSwap ev exch rate tx d)) = [InitSwapError e])
       \<and> deviceCommands (trace (initSwap ev exch rate tx d)) = [StartNewTransaction]"
  using assms by (auto simp add: flow_defs split: option.splits)

text \<open>C6 as stated fails: a device command has been issued before the bridge validates.\<close>

theorem validation_error_no_device_counterexample:
  "events (trace (initSwap amountErrorEnv demoExchange demoRate demoTransaction ''usb-1''))
     = [InitSwapError (Rejected ''NotEnoughBalance'')]
   \<and> deviceCommands
       (trace (initSwap amountErrorEnv demoExchange demoRate demoTransaction ''usb-1''))
     \<noteq> []"
  by (simp add: flow_defs run_defs)

theorem validation_error_is_reported_witness:
  "firstNonNull (Some (Rejected ''InvalidAddress'')) (Some (Rejected ''NotEnoughBalance''))
     = Some (Rejected ''InvalidAddress'')
   \<and> events (trace (initSwap bothErrorsEnv demoExchange demoRate demoTransaction ''usb-1''))
       = [InitSwapError (Rejected ''InvalidAddress'')]
   \<and> deviceCommands
        (trace (initSwap bothErrorsEnv demoExchange demoRate demoTransaction ''usb-1''))
       = [StartNewTransaction]"
proof -
  let ?st = "\<lparr>errors = \<lparr>err_recipient = Some (Rejected ''InvalidAddress''),
                          err_amount = Some (Rejected ''NotEnoughBalance'')\<rparr>,
               estimatedFees = 1200\<rparr>"
  have m: "\<not> MOCK bothErrorsEnv" by (simp add: bothErrorsEnv_def happyEnv_fields)
  have s: "swap bothErrorsEnv StartNewTransaction = Inr ''nonce-1''"
    by (simp add: bothErrorsEnv_def happyEnv_fields)
  have n: "network bothErrorsEnv
             (swapRequest bothErrorsEnv demoExchange demoRate demoTransaction ''nonce-1'')
           = Inr (Some \<lparr>data = Some [demoQuote]\<rparr>)"
    by (simp add: bothErrorsEnv_def happyEnv_fields)
  have dt: "data \<lparr>data = Some [demoQuote]\<rparr> = Some (demoQuote # [])" by simp
  have p: "getProviderNameAndSignature bothErrorsEnv (sr_provider demoQuote)
           = Inr \<lparr>nameAndPubkey = ''changelly-key'', pi_signature = ''sig-p''\<rparr>"
    by (simp add: bothErrorsEnv_def happyEnv_fields)
  have c1: "cancelAt bothErrorsEnv \<noteq> Some AtStartNewTransaction"
    by (simp add: bothErrorsEnv_def happyEnv_fields)
  have c2: "cancelAt bothErrorsEnv \<noteq> Some AtNetwork"
    by (simp add: bothErrorsEnv_def happyEnv_fields)
  have t1: "cur_type (getAccountCurrency bothErrorsEnv (toAccount demoExchange))
              = ''CryptoCurrency''"
    by (simp add: bothErrorsEnv_def happyEnv_fields demoExchange_def btcAccount_def
          ethAccount_def eth_def)
  have t2: "cur_type (getAccountCurrency bothErrorsEnv (fromAccount demoExchange))
              = ''CryptoCurrency''"
    by (simp add: bothErrorsEnv_def happyEnv_fields demoExchange_def btc_def)
  have a: "getAbandonSeedAddress bothErrorsEnv
             (cur_id (getAccountCurrency bothErrorsEnv (fromAccount demoExchange)))
           = Inr ''bc1-abandon''"
    by (simp add: bothErrorsEnv_def happyEnv_fields)
  have u: "recipient (updateTransaction bothErrorsEnv demoTransaction (payinAddress demoQuote))
           \<noteq> ''bc1-abandon''"
    by (simp add: bothErrorsEnv_def happyEnv_fields bridgeUpdateTransaction_def demoQuote_def)
  have pr: "prepareTransaction bothErrorsEnv
              (getMainAccount bothErrorsEnv (fromAccount demoExchange)
                 (fromParentAccount demoExchange))
              (updateTransaction bothErrorsEnv demoTransaction (payinAddress demoQuote))
            = Inr (bridgeUpdateTransaction demoTransaction (payinAddress demoQuote))"
    by (simp add: bothErrorsEnv_def happyEnv_fields)
  have gs: "getTransactionStatus bothErrorsEnv
              (getMainAccount bothErrorsEnv (fromAccount demoExchange)
                 (fromParentAccount demoExchange))
              (bridgeUpdateTransaction demoTransaction (payinAddress demoQuote))
            = Inr ?st"
    by (simp add: bothErrorsEnv_def)
  have er: "err_recipient (errors ?st) \<noteq> None \<or> err_amount (errors ?st) \<noteq> None" by simp
  have f: "firstNonNull (Some (Rejected ''InvalidAddress'')) (Some (Rejected ''NotEnoughBalance''))
     = Some (Rejected ''InvalidAddress'')" by (simp add: firstNonNull_def)
  from validation_error_is_reported [OF m s n dt p c1 c2 t1 t2 a u pr gs er, of "''usb-1''"] f
  show ?thesis by simp
qed

section \<open>The amount of the rate-lock request\<close>

text \<open>Rounding leaves a number alone that has no more decimals than are kept.\<close>

lemma roundHalfUp_exact:
  assumes "of_int \<lfloor>x * 10 ^ dp\<rfloor> = x * 10 ^ dp"
  shows "roundHalfUp dp x = x"
proof -
  obtain k :: int where k: "x * 10 ^ dp = of_int k" using assms by metis
  have pos: "\<lfloor>(of_int k :: rat) + 1 / 2\<rfloor> = k" by linarith
  have neg: "\<lfloor>- (of_int k :: rat) + 1 / 2\<rfloor> = - k" by linarith
  have nz: "(10::rat) ^ dp \<noteq> 0" by simp
  have x: "x = of_int k / 10 ^ dp" using k nz by (simp add: field_simps)
  show ?thesis
  proof (cases "0 \<le> x")
    case True
    then show ?thesis using k pos x by (simp add: roundHalfUp_def)
  next
    case False
    have "- x * 10 ^ dp = - of_int k" using k by simp
    then show ?thesis using False neg x by (simp add: roundHalfUp_def)
  qed
qed

lemma whole_amount_fits:
  assumes "mag \<le> DECIMAL_PLACES"
  shows "fitsDecimalPlaces (of_int n / 10 ^ mag)"
proof -
  have "(10::rat) ^ DECIMAL_PLACES = 10 ^ mag * 10 ^ (DECIMAL_PLACES - mag)"
    using assms by (simp flip: power_add)
  then have "(of_int n / 10 ^ mag :: rat) * 10 ^ DECIMAL_PLACES
          = of_int (n * 10 ^ (DECIMAL_PLACES - mag))"
    by simp
  then show ?thesis unfolding fitsDecimalPlaces_def by (metis floor_of_int)
qed

text \<open>Once the device has handed out the nonce, the flow posts one request, and this one.\<close>

lemma posted_request:
  assumes "\<not> MOCK ev" and "swap ev StartNewTransaction = Inr nonce"
  shows "networkRequests (trace (initSwap ev exch rate tx d))
           = [swapRequest ev exch rate tx nonce]"
proof (cases "cancelAt ev")
  case None
  then show ?thesis using assms
    by (simp add: flow_defs split: sum.splits option.splits list.splits)
next
  case (Some p)
  then show ?thesis using assms
    by (cases p) (simp_all add: flow_defs split: sum.splits option.splits list.splits)
qed

text \<open>
  C7, as the code has it: the amount posted in the rate-lock request is the
  transaction's amount divided by ten to the magnitude of the unit of the account the
  funds are taken from, rounded to 20 decimals, half up.  It is that quotient exactly
  whenever the quotient has at most 20 decimals, which holds for every whole amount at
  a magnitude of at most 20.
\<close>

theorem posted_amount_is_rounded_quotient:
  assumes "\<not> MOCK ev" and "swap ev StartNewTransaction = Inr nonce"
  shows "map rq_amountFrom (networkRequests (trace (initSwap ev exch rate tx d)))
           = [roundHalfUp DECIMAL_PLACES
                (amount tx / 10 ^ magnitude (getAccountUnit ev (fromAccount exch)))]
       \<and> (fitsDecimalPlaces (amount tx / 10 ^ magnitude (getAccountUnit ev (fromAccount exch)))
            \<longrightarrow> map rq_amountFrom (networkRequests (trace (initSwap ev exch rate tx d)))
                  = [amount tx / 10 ^ magnitude (getAccountUnit ev (fromAccount exch))])
       \<and> (amount tx = of_int n
            \<and> magnitude (getAccountUnit ev (fromAccount exch)) \<le> DECIMAL_PLACES
            \<longrightarrow> map rq_amountFrom (networkRequests (trace (initSwap ev exch rate tx d)))
                  = [amount tx / 10 ^ magnitude (getAccountUnit ev (fromAccount exch))])"
proof -
  let ?m = "magnitude (getAccountUnit ev (fromAccount exch))"
  let ?sent = "map rq_amountFrom (networkRequests (trace (initSwap ev exch rate tx d)))"
  have sent: "?sent = [roundHalfUp DECIMAL_PLACES (amount tx / 10 ^ ?m)]"
    using posted_request [OF assms, of exch rate tx d]
    by (simp add: swapRequest_def apiAmount_def bn_div_def bn_pow_def Let_def)
  have fits: "?sent = [amount tx / 10 ^ ?m]" if "fitsDecimalPlaces (amount tx / 10 ^ ?m)"
    using that sent roundHalfUp_exact [of "amount tx / 10 ^ ?m" DECIMAL_PLACES]
    by (simp add: fitsDecimalPlaces_def)
  have whole: "?sent = [amount tx / 10 ^ ?m]"
    if "amount tx = of_int n \<and> ?m \<le> DECIMAL_PLACES"
    using that fits whole_amount_fits [of ?m n] by simp
  from sent fits whole show ?thesis by blast
qed

text \<open>
  C7 as stated fails: one smallest unit at magnitude 21 is posted as 0, which is not
  the quotient.
\<close>

theorem posted_amount_exact_counterexample:
  "map rq_amountFrom (networkRequests
      (trace (initSwap fineUnitEnv demoExchange demoRate dustTransaction ''usb-1''))) = [0]
   \<and> amount dustTransaction
       / 10 ^ magnitude (getAccountUnit fineUnitEnv (fromAccount demoExchange)) \<noteq> 0"
proof -
  have m: "\<not> MOCK fineUnitEnv" by (simp add: fineUnitEnv_def happyEnv_fields)
  have s: "swap fineUnitEnv StartNewTransaction = Inr ''nonce-1''"
    by (simp add: fineUnitEnv_def happyEnv_fields)
  have "networkRequests
          (trace (initSwap fineUnitEnv demoExchange demoRate dustTransaction ''usb-1''))
        = [swapRequest fineUnitEnv demoExchange demoRate dustTransaction ''nonce-1'']"
    by (rule posted_request [OF m s])
  then show ?thesis
    by (simp add: swapRequest_def apiAmount_def bn_div_def bn_pow_def roundHalfUp_def
          DECIMAL_PLACES_def floor_eq_iff fineUnitEnv_def dustTransaction_def Let_def)
qed

theorem posted_amount_is_rounded_quotient_witness:
  "\<not> MOCK happyEnv \<and> swap happyEnv StartNewTransaction = Inr ''nonce-1''
   \<and> amount demoTransaction = of_int 150000000
   \<and> magnitude (getAccountUnit happyEnv (fromAccount demoExchange)) = 8
   \<and> map rq_amountFrom (networkRequests
        (trace (initSwap happyEnv demoExchange demoRate demoTransaction ''usb-1''))) = [3 / 2]"
proof -
  have m: "\<not> MOCK happyEnv" by (simp add: happyEnv_fields)
  have s: "swap happyEnv StartNewTransaction = Inr ''nonce-1''" by (simp add: happyEnv_fields)
  have a: "amount demoTransaction = of_int 150000000" by (simp add: demoTransaction_def)
  have u: "magnitude (getAccountUnit happyEnv (fromAccount demoExchange)) = 8"
    by (simp add: happyEnv_fields)
  have q: "amount demoTransaction / 10 ^ 8 = 3 / 2" by (simp add: demoTransaction_def)
  have le: "magnitude (getAccountUnit happyEnv (fromAccount demoExchange)) \<le> DECIMAL_PLACES"
    by (simp add: u DECIMAL_PLACES_def)
  from posted_amount_is_rounded_quotient
         [OF m s, of demoExchange demoRate demoTransaction "''usb-1''" 150000000]
  have "amount demoTransaction = of_int 150000000
          \<and> magnitude (getAccountUnit happyEnv (fromAccount demoExchange)) \<le> DECIMAL_PLACES
        \<longrightarrow> map rq_amountFrom (networkRequests
              (trace (initSwap happyEnv demoExchange demoRate demoTransaction ''usb-1'')))
            = [amount demoTransaction
                 / 10 ^ magnitude (getAccountUnit happyEnv (fromAccount demoExchange))]"
    by blast
  with a le have "map rq_amountFrom (networkRequests
        (trace (initSwap happyEnv demoExchange demoRate demoTransaction ''usb-1'')))
      = [amount demoTransaction
           / 10 ^ magnitude (getAccountUnit happyEnv (fromAccount demoExchange))]"
    by blast
  then have "map rq_amountFrom (networkRequests
        (trace (initSwap happyEnv demoExchange demoRate demoTransaction ''usb-1''))) = [3 / 2]"
    by (simp only: u q)
  with m s a u show ?thesis by blast
qed

section \<open>Substitution of the recipient\<close>

text \<open>
  Once a quote has been obtained, whatever is handed to the bridge for preparation is
  the draft after the bridge has substituted the quote's pay-in address.
\<close>

lemma prepared_is_substituted:
  assumes "\<not> MOCK ev"
    and "swap ev StartNewTransaction = Inr nonce"
    and "network ev (swapRequest ev exch rate tx nonce) = Inr (Some r)"
    and "data r = Some (q # qs)"
  shows "preparedTransactions (trace (initSwap ev exch rate tx d)) = []
       \<or> preparedTransactions (trace (initSwap ev exch rate tx d))
           = [updateTransaction ev tx (payinAddress q)]"
proof (cases "cancelAt ev")
  case None
  then show ?thesis using assms
    by (simp add: flow_defs split: sum.splits option.splits list.splits)
next
  case (Some p)
  then show ?thesis using assms
    by (cases p) (simp_all add: flow_defs split: sum.splits option.splits list.splits)
qed

text \<open>The flow gets as far as the preparation when the checks before it pass.\<close>

lemma preparation_is_reached:
  assumes "\<not> MOCK ev"
    and "swap ev StartNewTransaction = Inr nonce"
    and "network ev (swapRequest ev exch rate tx nonce) = Inr (Some r)"
    and "data r = Some (q # qs)"
    and "getProviderNameAndSignature ev (sr_provider q) = Inr pinfo"
    and "cancelAt ev \<noteq> Some AtStartNewTransaction"
    and "cancelAt ev \<noteq> Some AtNetwork"
    and "cur_type (getAccountCurrency ev (toAccount exch)) = ''CryptoCurrency''"
    and "cur_type (getAccountCurrency ev (fromAccount exch)) = ''CryptoCurrency''"
    and "getAbandonSeedAddress ev (cur_id (getAccountCurrency ev (fromAccount exch))) = Inr a"
    and "recipient (updateTransaction ev tx (payinAddress q)) \<noteq> a"
  shows "preparedTransactions (trace (initSwap ev exch rate tx d)) \<noteq> []"
proof (cases "cancelAt ev")
  case None
  then show ?thesis using assms
    by (simp add: flow_defs split: sum.splits option.splits list.splits)
next
  case (Some p)
  then show ?thesis using assms
    by (cases p) (simp_all add: flow_defs split: sum.splits option.splits list.splits)
qed

text \<open>
  C8: with the bridge of the specification, in every invocation that has obtained a
  quote the only transaction the flow hands on after the substitution step is the
  draft with the quote's pay-in address as its recipient, whatever recipient the draft
  had before; and the flow does hand it on whenever the provider is known, both
  currencies are of type CryptoCurrency, the pay-in address is not the abandon-seed
  address and the subscriber has not unsubscribed before line 220.
\<close>

theorem recipient_is_payin_address:
  assumes "\<not> MOCK ev"
    and "updateTransaction ev = bridgeUpdateTransaction"
    and "swap ev StartNewTransaction = Inr nonce"
    and "network ev (swapRequest ev exch rate tx nonce) = Inr (Some r)"
    and "data r = Some (q # qs)"
  shows "(preparedTransactions (trace (initSwap ev exch rate tx d)) = []
          \<or> preparedTransactions (trace (initSwap ev exch rate tx d))
              = [bridgeUpdateTransaction (tx\<lparr>recipient := original\<rparr>) (payinAddress q)])
       \<and> (map recipient (preparedTransactions (trace (initSwap ev exch rate tx d))) = []
          \<or> map recipient (preparedTransactions (trace (initSwap ev exch rate tx d)))
              = [payinAddress q])
       \<and> (getProviderNameAndSignature ev (sr_provider q) = Inr pinfo
            \<and> cancelAt ev \<noteq> Some AtStartNewTransaction
            \<and> cancelAt ev \<noteq> Some AtNetwork
            \<and> cur_type (getAccountCurrency ev (toAccount exch)) = ''CryptoCurrency''
            \<and> cur_type (getAccountCurrency ev (fromAccount exch)) = ''CryptoCurrency''
            \<and> getAbandonSeedAddress ev (cur_id (getAccountCurrency ev (fromAccount exch)))
                = Inr a
            \<and> payinAddress q \<noteq> a
          \<longrightarrow> map recipient (preparedTransactions (trace (initSwap ev exch rate tx d)))
                = [payinAddress q])"
proof -
  let ?ps = "preparedTransactions (trace (initSwap ev exch rate tx d))"
  have upd: "updateTransaction ev tx (payinAddress q)
               = bridgeUpdateTransaction (tx\<lparr>recipient := original\<rparr>) (payinAddress q)"
    by (simp add: assms(2) bridgeUpdateTransaction_def)
  have rcp: "recipient (updateTransaction ev tx (payinAddress q)) = payinAddress q"
    by (simp add: assms(2) bridgeUpdateTransaction_def)
  note shape = prepared_is_substituted [OF assms(1) assms(3) assms(4) assms(5), of d]
  from shape upd
  have one: "?ps = []
       \<or> ?ps = [bridgeUpdateTransaction (tx\<lparr>recipient := original\<rparr>) (payinAddress q)]"
    by simp
  from shape rcp have two: "map recipient ?ps = [] \<or> map recipient ?ps = [payinAddress q]"
    by (elim disjE) simp_all
  have three: "map recipient ?ps = [payinAddress q]"
    if reach: "getProviderNameAndSignature ev (sr_provider q) = Inr pinfo
            \<and> cancelAt ev \<noteq> Some AtStartNewTransaction
            \<and> cancelAt ev \<noteq> Some AtNetwork
            \<and> cur_type (getAccountCurrency ev (toAccount exch)) = ''CryptoCurrency''
            \<and> cur_type (getAccountCurrency ev (fromAccount exch)) = ''CryptoCurrency''
            \<and> getAbandonSeedAddress ev (cur_id (getAccountCurrency ev (fromAccount exch)))
                = Inr a
            \<and> payinAddress q \<noteq> a"
  proof -
    from reach rcp have ne: "recipient (updateTransaction ev tx (payinAddress q)) \<noteq> a"
      by simp
    from reach have "?ps \<noteq> []"
      using preparation_is_reached [OF assms(1) assms(3) assms(4) assms(5) _ _ _ _ _ _ ne, of pinfo d]
      by blast
    with two show ?thesis by auto
  qed
  from one two three show ?thesis by blast
qed

theorem recipient_is_payin_address_witness:
  "updateTransaction happyEnv = bridgeUpdateTransaction
   \<and> recipient demoTransaction \<noteq> payinAddress demoQuote
   \<and> map recipient (preparedTransactions
        (trace (initSwap happyEnv demoExchange demoRate demoTransaction ''usb-1'')))
      = [payinAddress demoQuote]"
proof -
  have m: "\<not> MOCK happyEnv" by (simp add: happyEnv_fields)
  have b: "updateTransaction happyEnv = bridgeUpdateTransaction" by (simp add: happyEnv_fields)
  have s: "swap happyEnv StartNewTransaction = Inr ''nonce-1''" by (simp add: happyEnv_fields)
  have n: "network happyEnv
             (swapRequest happyEnv demoExchange demoRate demoTransaction ''nonce-1'')
           = Inr (Some \<lparr>data = Some [demoQuote]\<rparr>)"
    by (simp add: happyEnv_fields)
  have dt: "data \<lparr>data = Some [demoQuote]\<rparr> = Some (demoQuote # [])" by simp
  have p: "getProviderNameAndSignature happyEnv (sr_provider demoQuote)
           = Inr \<lparr>nameAndPubkey = ''changelly-key'', pi_signature = ''sig-p''\<rparr>"
    by (simp add: happyEnv_fields)
  have c1: "cancelAt happyEnv \<noteq> Some AtStartNewTransaction" by (simp add: happyEnv_fields)
  have c2: "cancelAt happyEnv \<noteq> Some AtNetwork" by (simp add: happyEnv_fields)
  have t1: "cur_type (getAccountCurrency happyEnv (toAccount demoExchange)) = ''CryptoCurrency''"
    by (simp add: happyEnv_fields demoExchange_def btcAccount_def ethAccount_def eth_def)
  have t2: "cur_type (getAccountCurrency happyEnv (fromAccount demoExchange))
              = ''CryptoCurrency''"
    by (simp add: happyEnv_fields demoExchange_def btc_def)
  have a: "getAbandonSeedAddress happyEnv
             (cur_id (getAccountCurrency happyEnv (fromAccount demoExchange)))
           = Inr ''bc1-abandon''"
    by (simp add: happyEnv_fields)
  have ne: "payinAddress demoQuote \<noteq> ''bc1-abandon''" by (simp add: demoQuote_def)
  have o: "recipient demoTransaction \<noteq> payinAddress demoQuote"
    by (simp add: demoTransaction_def demoQuote_def)
  from recipient_is_payin_address [OF m b s n dt, of "''usb-1''"]
  have "getProviderNameAndSignature happyEnv (sr_provider demoQuote)
            = Inr \<lparr>nameAndPubkey = ''changelly-key'', pi_signature = ''sig-p''\<rparr>
          \<and> cancelAt happyEnv \<noteq> Some AtStartNewTransaction
          \<and> cancelAt happyEnv \<noteq> Some AtNetwork
          \<and> cur_type (getAccountCurrency happyEnv (toAccount demoExchange)) = ''CryptoCurrency''
          \<and> cur_type (getAccountCurrency happyEnv (fromAccount demoExchange))
              = ''CryptoCurrency''
          \<and> getAbandonSeedAddress happyEnv
               (cur_id (getAccountCurrency happyEnv (fromAccount demoExchange)))
              = Inr ''bc1-abandon''
          \<and> payinAddress demoQuote \<noteq> ''bc1-abandon''
        \<longrightarrow> map recipient (preparedTransactions
              (trace (initSwap happyEnv demoExchange demoRate demoTransaction ''usb-1'')))
            = [payinAddress demoQuote]"
    by blast
  with p c1 c2 t1 t2 a ne b o show ?thesis by blast
qed

section \<open>Order of the device commands\<close>






section \<open>A response without data\<close>

text \<open>
  C10: when the rate-lock call resolves and its value is falsy or has no data field,
  no event is emitted and the observer is completed, once.
\<close>

theorem response_without_data_is_silent:
  assumes "\<not> MOCK ev"
    and "swap ev StartNewTransaction = Inr nonce"
    and "network ev (swapRequest ev exch rate tx nonce) = Inr res"
    and "noData res"
  shows "events (trace (initSwap ev exch rate tx d)) = []
       \<and> completions (trace (initSwap ev exch rate tx d)) = 1"
  using assms by (auto simp add: flow_defs noData_def split: option.splits)

theorem response_without_data_is_silent_witness:
  "noData (Some \<lparr>data = None\<rparr>)
   \<and> network dataLessEnv
       (swapRequest dataLessEnv demoExchange demoRate demoTransaction ''nonce-1'')
      = Inr (Some \<lparr>data = None\<rparr>)
   \<and> events (trace (initSwap dataLessEnv demoExchange demoRate demoTransaction ''usb-1'')) = []
   \<and> completions (trace (initSwap dataLessEnv demoExchange demoRate demoTransaction ''usb-1''))
      = 1"
proof -
  have m: "\<not> MOCK dataLessEnv" by (simp add: dataLessEnv_def happyEnv_fields)
  have s: "swap dataLessEnv StartNewTransaction = Inr ''nonce-1''"
    by (simp add: dataLessEnv_def happyEnv_fields)
  have n: "network dataLessEnv
             (swapRequest dataLessEnv demoExchange demoRate demoTransaction ''nonce-1'')
           = Inr (Some \<lparr>data = None\<rparr>)"
    by (simp add: dataLessEnv_def)
  have e: "noData (Some \<lparr>data = None\<rparr>)" by (simp add: noData_def)
  from response_without_data_is_silent [OF m s n e, of "''usb-1''"] n e
  show ?thesis by blast
qed

end
